theory Spec2Isabelle
  imports Complex_Main "HOL-Library.Word"
begin

section \<open>FrameSet: the streaming frame buffer (src/frame/FrameSet.js)\<close>

text \<open>
  A FrameSet has three private fields: the \<open>finalized\<close> flag, the array of buffered
  frames and the \<open>totalLength\<close> counter. The frames themselves are opaque here, so the
  record is polymorphic in the frame type. The events fired by \<open>emit\<close> reach listeners
  registered by callers; they do not touch the three fields and are not part of the record.
\<close>

record 'f FrameSet =
  finalized :: bool
  frames :: "'f list"
  totalLength :: nat

datatype fs_error = AddAfterFinalize | NoMoreFrames

text \<open>
  \<open>Array.prototype.slice(begin, end)\<close> on integer arguments: an absent (undefined)
  \<open>begin\<close> is 0 and an absent \<open>end\<close> is the length; a negative index counts from the
  end; both are clamped to the array.
\<close>

definition js_rel_index :: "int \<Rightarrow> int \<Rightarrow> int" where
  "js_rel_index len i = (if i < 0 then max (len + i) 0 else min i len)"

definition js_slice :: "'a list \<Rightarrow> int option \<Rightarrow> int option \<Rightarrow> 'a list" where
  "js_slice xs b e =
     (let len = int (length xs);
          k = (case b of None \<Rightarrow> 0 | Some i \<Rightarrow> js_rel_index len i);
          fin = (case e of None \<Rightarrow> len | Some i \<Rightarrow> js_rel_index len i)
      in take (nat (fin - k)) (drop (nat k) xs))"

text \<open>The constructor: \<open>frames ? frames.slice() : []\<close>, the counter starts at 0.\<close>

definition FrameSet_new :: "'f list option \<Rightarrow> 'f FrameSet" where
  "FrameSet_new fs =
     \<lparr> finalized = False,
       frames = (case fs of None \<Rightarrow> [] | Some xs \<Rightarrow> js_slice xs None None),
       totalLength = 0 \<rparr>"

definition FrameSet_length :: "'f FrameSet \<Rightarrow> nat" where
  "FrameSet_length s = length (frames s)"

definition hasNext :: "'f FrameSet \<Rightarrow> bool" where
  "hasNext s = (length (frames s) > 0)"

text \<open>
  Each method returns its result together with the FrameSet after the call. A method that
  throws returns \<open>Inl\<close> and the state it leaves behind.
\<close>

definition add :: "'f \<Rightarrow> 'f FrameSet \<Rightarrow> (fs_error + unit) \<times> 'f FrameSet" where
  "add frame s =
     (if finalized s then (Inl AddAfterFinalize, s)
      else (Inr (), s\<lparr> frames := frames s @ [frame], totalLength := totalLength s + 1 \<rparr>))"

definition finalize :: "'f FrameSet \<Rightarrow> 'f FrameSet" where
  "finalize s = (if finalized s then s else s\<lparr> finalized := True \<rparr>)"

definition next_frame :: "'f FrameSet \<Rightarrow> (fs_error + 'f) \<times> 'f FrameSet" where
  "next_frame s =
     (if \<not> hasNext s then (Inl NoMoreFrames, s)
      else (case frames s of
              frame # rest \<Rightarrow> (Inr frame, s\<lparr> frames := rest \<rparr>)
            | [] \<Rightarrow> (Inl NoMoreFrames, s)))"

definition subSet :: "int option \<Rightarrow> int option \<Rightarrow> 'f FrameSet \<Rightarrow> 'f FrameSet" where
  "subSet b e s =
     (let frameSet = FrameSet_new (Some (js_slice (frames s) b e));
          frameSet = frameSet\<lparr> totalLength := FrameSet_length frameSet \<rparr>
      in if finalized s then frameSet\<lparr> finalized := True \<rparr> else frameSet)"

subsection \<open>Sequences of operations on one FrameSet\<close>

text \<open>
  The public operations of a FrameSet. \<open>hasNext\<close>, \<open>subSet\<close> and the getters read the
  set without changing it; a caller may catch the error of a failed \<open>add\<close> or \<open>next\<close> and
  go on using the set.
\<close>

datatype 'f fs_op =
    Add 'f
  | Finalize
  | HasNext
  | Next
  | SubSet "int option" "int option"
  | GetLength
  | GetTotalLength
  | GetFinalized

fun fs_step :: "'f FrameSet \<Rightarrow> 'f fs_op \<Rightarrow> 'f FrameSet" where
  "fs_step s (Add f) = snd (add f s)"
| "fs_step s Finalize = finalize s"
| "fs_step s Next = snd (next_frame s)"
| "fs_step s HasNext = s"
| "fs_step s (SubSet b e) = s"
| "fs_step s GetLength = s"
| "fs_step s GetTotalLength = s"
| "fs_step s GetFinalized = s"

fun fs_run :: "'f FrameSet \<Rightarrow> 'f fs_op list \<Rightarrow> 'f FrameSet" where
  "fs_run s [] = s"
| "fs_run s (x # xs) = fs_run (fs_step s x) xs"

text \<open>The number of \<open>add\<close> calls of a sequence that return rather than throw.\<close>

fun adds_ok :: "'f FrameSet \<Rightarrow> 'f fs_op list \<Rightarrow> nat" where
  "adds_ok s [] = 0"
| "adds_ok s (Add f # xs) =
     (case fst (add f s) of Inr _ \<Rightarrow> 1 | Inl _ \<Rightarrow> 0) + adds_ok (fs_step s (Add f)) xs"
| "adds_ok s (x # xs) = adds_ok (fs_step s x) xs"

section \<open>Numbers as text\<close>

text \<open>
  Template literals turn numbers into decimal text. \<open>decimal_of_nat\<close> is that text for a
  natural number and \<open>decimal_of_int\<close> for an integer.
\<close>

definition digit_char :: "nat \<Rightarrow> char" where
  "digit_char d = ''0123456789'' ! d"

fun decimal_of_nat :: "nat \<Rightarrow> string" where
  "decimal_of_nat n =
     (if n < 10 then [digit_char n] else decimal_of_nat (n div 10) @ [digit_char (n mod 10)])"

declare decimal_of_nat.simps [simp del]

definition decimal_of_int :: "int \<Rightarrow> string" where
  "decimal_of_int i =
     (if i < 0 then CHR ''-'' # decimal_of_nat (nat (- i)) else decimal_of_nat (nat i))"

section \<open>Color (src/Color.js)\<close>

text \<open>
  The values held by a Color's fields. The constructor stores whatever it is given: the
  pixel reader passes numbers (or undefined, past the end of the buffer) and
  \<open>deserialize\<close> passes the pieces of a split string.
\<close>

datatype jsv = JNum nat | JStr string | JUndefined

fun string_of_jsv :: "jsv \<Rightarrow> string" where
  "string_of_jsv (JNum n) = decimal_of_nat n"
| "string_of_jsv (JStr s) = s"
| "string_of_jsv JUndefined = ''undefined''"

record Color =
  red :: jsv
  green :: jsv
  blue :: jsv
  alpha :: jsv

text \<open>The constructor: \<open>alpha != null ? alpha : 255\<close>.\<close>

definition Color_new :: "jsv \<Rightarrow> jsv \<Rightarrow> jsv \<Rightarrow> jsv \<Rightarrow> Color" where
  "Color_new r g b a =
     \<lparr> red = r, green = g, blue = b, alpha = (if a \<noteq> JUndefined then a else JNum 255) \<rparr>"

text \<open>\<open>serialize\<close> and \<open>deserialize\<close> pass null through; null is \<open>None\<close>.\<close>

definition serialize :: "Color option \<Rightarrow> string option" where
  "serialize color =
     (case color of
        None \<Rightarrow> None
      | Some c \<Rightarrow>
          Some (string_of_jsv (red c) @ '','' @ string_of_jsv (green c) @ '','' @
                string_of_jsv (blue c) @ '','' @ string_of_jsv (alpha c)))"

text \<open>\<open>String.prototype.split(',')\<close>: the pieces between the commas, at least one piece.\<close>

fun split_comma :: "string \<Rightarrow> string list" where
  "split_comma [] = [Nil]"
| "split_comma (c # cs) =
     (if c = CHR '','' then [] # split_comma cs
      else (case split_comma cs of p # ps \<Rightarrow> (c # p) # ps | [] \<Rightarrow> [c # Nil]))"

text \<open>Reading piece \<open>k\<close> of the split: a string, or undefined when there is no such piece.\<close>

definition js_part :: "string list \<Rightarrow> nat \<Rightarrow> jsv" where
  "js_part parts k = (if k < length parts then JStr (parts ! k) else JUndefined)"

definition deserialize :: "string option \<Rightarrow> Color option" where
  "deserialize color =
     (case color of
        None \<Rightarrow> None
      | Some s \<Rightarrow>
          (let rgb = split_comma s
           in Some (Color_new (js_part rgb 0) (js_part rgb 1) (js_part rgb 2) (js_part rgb 3))))"

text \<open>
  \<open>this.alpha < 255\<close> converts its left operand to a number. A number is itself and
  undefined is NaN (\<open>None\<close>, every comparison with it is false). For a string the
  conversion is modelled on strings of decimal digits, which is what \<open>deserialize\<close> makes
  of a serialized Color; any other string reads as NaN here.
\<close>

definition digit_value :: "char \<Rightarrow> nat option" where
  "digit_value c = map_of (zip ''0123456789'' [0 ..< 10]) c"

fun number_of_digits :: "nat \<Rightarrow> string \<Rightarrow> nat option" where
  "number_of_digits acc [] = Some acc"
| "number_of_digits acc (c # cs) =
     (case digit_value c of None \<Rightarrow> None | Some d \<Rightarrow> number_of_digits (10 * acc + d) cs)"

fun to_number :: "jsv \<Rightarrow> nat option" where
  "to_number (JNum n) = Some n"
| "to_number (JStr s) = number_of_digits 0 s"
| "to_number JUndefined = None"

definition hasTransparency :: "Color \<Rightarrow> bool" where
  "hasTransparency c = (case to_number (alpha c) of Some a \<Rightarrow> a < 255 | None \<Rightarrow> False)"

text \<open>
  \<open>toAnsi\<close> looks the serialized Color up in the process-wide cache and, on a miss, asks
  the external library (\<open>convert.rgb.ansi256\<close>, not part of this repository) and stores
  the answer. The library function is a parameter of the model, of type \<open>converter\<close>; the
  cache is passed in and returned.
\<close>

type_synonym ansi_cache = "string \<rightharpoonup> int"
type_synonym converter = "jsv \<Rightarrow> jsv \<Rightarrow> jsv \<Rightarrow> int"

definition toAnsi :: "converter \<Rightarrow> Color \<Rightarrow> ansi_cache \<Rightarrow> int \<times> ansi_cache" where
  "toAnsi ansi256 c cache =
     (case serialize (Some c) of
        None \<Rightarrow> (ansi256 (red c) (green c) (blue c), cache)
      | Some serialized \<Rightarrow>
          (case cache serialized of
             Some ansiColor \<Rightarrow> (ansiColor, cache)
           | None \<Rightarrow>
               (let ansiColor = ansi256 (red c) (green c) (blue c)
                in (ansiColor, cache(serialized \<mapsto> ansiColor)))))"

text \<open>
  A colour as the Paint code handles it: an ANSI code (or the transparency sentinel), or
  null (a cell without pixels), or undefined (a read past the end of the previous Paint's
  array).
\<close>

datatype cval = Undefined | Null | Code int

fun string_of_cval :: "cval \<Rightarrow> string" where
  "string_of_cval Undefined = ''undefined''"
| "string_of_cval Null = ''null''"
| "string_of_cval (Code c) = decimal_of_int c"

definition ESC :: char where
  "ESC = CHR 0x1B"

definition closeAnsi :: string where
  "closeAnsi = ESC # ''[39m''"

definition openAnsi :: "cval \<Rightarrow> string" where
  "openAnsi code = ESC # ''[38;5;'' @ string_of_cval code @ ''m''"

text \<open>
  \<open>code >= 232 || code === 59 || code === 16\<close>. On null and undefined all three tests are
  false.
\<close>

fun isAnsiGrayscale :: "cval \<Rightarrow> bool" where
  "isAnsiGrayscale (Code code) = (code \<ge> 232 \<or> code = 59 \<or> code = 16)"
| "isAnsiGrayscale Null = False"
| "isAnsiGrayscale Undefined = False"

section \<open>Paint (src/frame/Paint.js)\<close>

text \<open>
  A cell's histogram is a JavaScript object whose keys are colour codes. \<open>Object.keys\<close>
  lists the keys that are array indices (the ANSI codes) in ascending numeric order and
  then the other keys (the sentinel \<open>-1\<close>) in the order they were created. The histogram
  is kept as the association list in that order; \<open>hist_insert\<close> (with the Frame, below)
  puts a new key in its place.
\<close>

type_synonym hist = "(int \<times> nat) list"

definition TRANSPARENT_ANSI :: int where
  "TRANSPARENT_ANSI = - 1"

definition ASCII_CHARACTER :: char where
  "ASCII_CHARACTER = CHR ''#''"

text \<open>\<open>previousColors[index]\<close>: undefined past the end of the array.\<close>

definition js_nth :: "cval list \<Rightarrow> nat \<Rightarrow> cval" where
  "js_nth xs i = (if i < length xs then xs ! i else Undefined)"

text \<open>
  The function mapped over the keys in \<open>_getProminentColor\<close>: the sentinel is replaced
  from the previous colours when there are any, and the count of a grayscale colour is
  halved.
\<close>

definition weigh :: "nat \<Rightarrow> cval list option \<Rightarrow> int \<times> nat \<Rightarrow> cval \<times> rat" where
  "weigh index previousColors kc =
     (let ansiColor =
            (case previousColors of
               Some pcs \<Rightarrow> if fst kc = TRANSPARENT_ANSI then js_nth pcs index else Code (fst kc)
             | None \<Rightarrow> Code (fst kc));
          count = of_nat (snd kc)
      in (ansiColor, if isAnsiGrayscale ansiColor then count / 2 else count))"

text \<open>
  The comparator orders by descending count and \<open>Array.prototype.sort\<close> is stable (by
  ECMAScript 2019; the engines before it were stable on arrays of up to ten elements), as
  \<open>sort_key\<close> is. A missing histogram (a hole of the array) and an empty one give null.
\<close>

definition getProminentColor :: "nat \<Rightarrow> hist option \<Rightarrow> cval list option \<Rightarrow> cval" where
  "getProminentColor index colors previousColors =
     (case colors of
        None \<Rightarrow> Null
      | Some h \<Rightarrow>
          (case sort_key (\<lambda>e. - snd e) (map (weigh index previousColors) h) of
             [] \<Rightarrow> Null
           | prominentColor # _ \<Rightarrow> fst prominentColor))"

text \<open>
  A Paint object. It is never changed after its construction, so it is kept by value;
  \<open>paint_id\<close> is the identity of the instance (the number of Paints allocated before it)
  and \<open>paint_frame\<close> the reference to its Frame.
\<close>

record Paint =
  paint_id :: nat
  paint_frame :: nat
  ascii :: string
  colors :: "cval list"

text \<open>
  The loop of the constructor over the cells \<open>i, i + 1, ...\<close>, on the string built so far,
  the colours array and the running \<open>previousColor\<close>.
\<close>

fun paint_loop ::
  "hist option list \<Rightarrow> cval list option \<Rightarrow> nat \<Rightarrow> string \<times> cval list \<times> cval \<Rightarrow>
   string \<times> cval list \<times> cval" where
  "paint_loop [] previousColors i st = st"
| "paint_loop (cs # rest) previousColors i (asc, cols, previousColor) =
     (let ansiColor = getProminentColor i cs previousColors;
          cols = cols @ [ansiColor];
          asc = (if ansiColor \<noteq> previousColor
                 then (if asc \<noteq> [] then asc @ closeAnsi else asc) @ openAnsi ansiColor
                 else asc);
          previousColor = (if ansiColor \<noteq> previousColor then ansiColor else previousColor);
          asc = asc @ [ASCII_CHARACTER]
      in paint_loop rest previousColors (i + 1) (asc, cols, previousColor))"

definition Paint_new :: "nat \<Rightarrow> nat \<Rightarrow> hist option list \<Rightarrow> Paint option \<Rightarrow> Paint" where
  "Paint_new pid frame countedColors lastPaint =
     (let previousColors = map_option colors lastPaint;
          (asc, cols, previousColor) = paint_loop countedColors previousColors 0 ([], [], Null);
          asc = (if asc \<noteq> [] then asc @ closeAnsi else asc)
      in \<lparr> paint_id = pid, paint_frame = frame, ascii = asc, colors = cols \<rparr>)"

subsection \<open>The encoding of the output string, in the words of the specification\<close>

text \<open>
  The specification's description of the string: scanning the cells with a running
  current colour (null at first), an open escape whenever the cell's colour differs from
  it, one glyph per cell, and the close escape once at the very end if anything was
  emitted.
\<close>

fun spec_scan :: "cval \<Rightarrow> cval list \<Rightarrow> string" where
  "spec_scan current [] = []"
| "spec_scan current (c # cs) =
     (if c \<noteq> current then openAnsi c else []) @ [ASCII_CHARACTER] @ spec_scan c cs"

definition spec_ascii :: "cval list \<Rightarrow> string" where
  "spec_ascii cs = (let body = spec_scan Null cs in if body \<noteq> [] then body @ closeAnsi else [])"

text \<open>
  The amended description: at a cell whose colour differs from the current one, the close
  escape comes first unless nothing has been emitted yet, then the open escape; one glyph
  per cell; and the close escape at the end when there is at least one cell.
\<close>

fun runs_scan :: "bool \<Rightarrow> cval \<Rightarrow> cval list \<Rightarrow> string" where
  "runs_scan started current [] = []"
| "runs_scan started current (c # cs) =
     (if c \<noteq> current then (if started then closeAnsi else []) @ openAnsi c else [])
       @ [ASCII_CHARACTER] @ runs_scan True c cs"

definition runs_ascii :: "cval list \<Rightarrow> string" where
  "runs_ascii cs = (if cs = [] then [] else runs_scan False Null cs @ closeAnsi)"

text \<open>The chosen colours of the cells \<open>i, i + 1, ...\<close>, one by one.\<close>

fun chosen :: "nat \<Rightarrow> hist option list \<Rightarrow> cval list option \<Rightarrow> cval list" where
  "chosen i [] prev = []"
| "chosen i (cs # rest) prev = getProminentColor i cs prev # chosen (Suc i) rest prev"

section \<open>Dimension (src/Dimension.js) and Frame (src/frame/Frame.js)\<close>

record Dimension =
  width :: nat
  height :: nat

text \<open>The constructor: \<open>width ? Math.abs(width) : 0\<close>, on integers.\<close>

definition Dimension_new :: "int \<Rightarrow> int \<Rightarrow> Dimension" where
  "Dimension_new w h =
     \<lparr> width = (if w \<noteq> 0 then nat \<bar>w\<bar> else 0), height = (if h \<noteq> 0 then nat \<bar>h\<bar> else 0) \<rparr>"

definition Dimension_toString :: "Dimension \<Rightarrow> string" where
  "Dimension_toString d = decimal_of_nat (width d) @ ''x'' @ decimal_of_nat (height d)"

definition area :: "Dimension \<Rightarrow> nat" where
  "area d = width d * height d"

text \<open>
  A Frame (the base class, whose pixels are RGBA): its index, its pixel buffer (a
  \<open>Uint8Array\<close>), its source Dimension and its private cache of Paints, keyed by the text
  of the target Dimension.
\<close>

record Frame =
  frame_index :: nat
  pixels :: "8 word list"
  dimension :: Dimension
  paintCache :: "string \<rightharpoonup> Paint"

definition Frame_new :: "nat \<Rightarrow> 8 word list \<Rightarrow> int \<Rightarrow> int \<Rightarrow> Frame" where
  "Frame_new i px w h =
     \<lparr> frame_index = i, pixels = px, dimension = Dimension_new w h, paintCache = Map.empty \<rparr>"

text \<open>\<open>pixels[i]\<close> on a \<open>Uint8Array\<close>: a number, or undefined past the end.\<close>

definition js_byte :: "8 word list \<Rightarrow> nat \<Rightarrow> jsv" where
  "js_byte px i = (if i < length px then JNum (unat (px ! i)) else JUndefined)"

definition getPixelColor ::
  "converter \<Rightarrow> 8 word list \<Rightarrow> nat \<Rightarrow> ansi_cache \<Rightarrow> int \<times> ansi_cache" where
  "getPixelColor ansi256 px i cache =
     (let color = Color_new (js_byte px i) (js_byte px (i + 1)) (js_byte px (i + 2))
                    (js_byte px (i + 3))
      in if hasTransparency color then (TRANSPARENT_ANSI, cache) else toAnsi ansi256 color cache)"

definition getPixelLength :: nat where
  "getPixelLength = 4"

subsection \<open>The arithmetic of the cell index\<close>

text \<open>
  \<open>_countColors\<close> computes the cell of a pixel with JavaScript numbers: a division that
  may give Infinity or NaN (a viewport or source width of 0), \<open>Math.max\<close>, \<open>Math.floor\<close>
  and \<open>%\<close>. \<open>jsnum\<close> is a non-negative number, Infinity or NaN. The finite values are
  rationals: the quotients are exact here, where a double is rounded.
\<close>

datatype jsnum = Fin rat | Infinity | NaN

fun js_div :: "jsnum \<Rightarrow> jsnum \<Rightarrow> jsnum" where
  "js_div (Fin a) (Fin b) = (if b = 0 then (if a = 0 then NaN else Infinity) else Fin (a / b))"
| "js_div (Fin a) Infinity = Fin 0"
| "js_div Infinity (Fin b) = Infinity"
| "js_div _ _ = NaN"

fun js_max :: "jsnum \<Rightarrow> jsnum \<Rightarrow> jsnum" where
  "js_max (Fin a) (Fin b) = Fin (max a b)"
| "js_max NaN _ = NaN"
| "js_max _ NaN = NaN"
| "js_max _ _ = Infinity"

fun js_floor :: "jsnum \<Rightarrow> jsnum" where
  "js_floor (Fin a) = Fin (of_int \<lfloor>a\<rfloor>)"
| "js_floor x = x"

fun js_mod :: "jsnum \<Rightarrow> jsnum \<Rightarrow> jsnum" where
  "js_mod (Fin a) (Fin b) = (if b = 0 then NaN else Fin (a - b * of_int \<lfloor>a / b\<rfloor>))"
| "js_mod (Fin a) Infinity = Fin a"
| "js_mod _ _ = NaN"

fun js_mul :: "jsnum \<Rightarrow> jsnum \<Rightarrow> jsnum" where
  "js_mul (Fin a) (Fin b) = Fin (a * b)"
| "js_mul Infinity (Fin b) = (if b = 0 then NaN else Infinity)"
| "js_mul (Fin a) Infinity = (if a = 0 then NaN else Infinity)"
| "js_mul Infinity Infinity = Infinity"
| "js_mul _ _ = NaN"

fun js_add :: "jsnum \<Rightarrow> jsnum \<Rightarrow> jsnum" where
  "js_add (Fin a) (Fin b) = Fin (a + b)"
| "js_add NaN _ = NaN"
| "js_add _ NaN = NaN"
| "js_add _ _ = Infinity"

text \<open>
  A number used as the key of an array element: a non-negative integer is an index; NaN
  and Infinity name an ordinary property, which is not an element of the array.
\<close>

fun array_index :: "jsnum \<Rightarrow> nat option" where
  "array_index (Fin a) = (if of_int \<lfloor>a\<rfloor> = a \<and> 0 \<le> a then Some (nat \<lfloor>a\<rfloor>) else None)"
| "array_index _ = None"

definition cell_index :: "Dimension \<Rightarrow> Dimension \<Rightarrow> jsnum \<Rightarrow> jsnum \<Rightarrow> nat \<Rightarrow> jsnum" where
  "cell_index own dimn blockWidth blockHeight i =
     (let pixelIndex = js_div (Fin (of_nat i)) (Fin (of_nat getPixelLength))
      in js_add
           (js_mod (js_floor (js_div pixelIndex blockWidth)) (Fin (of_nat (width dimn))))
           (js_mul
              (js_floor (js_div (js_div pixelIndex (Fin (of_nat (width own)))) blockHeight))
              (Fin (of_nat (width dimn)))))"

subsection \<open>Counting the colours of the cells\<close>

text \<open>A new key of a histogram, at its place in the order of \<open>Object.keys\<close>.\<close>

fun hist_insert :: "int \<Rightarrow> nat \<Rightarrow> hist \<Rightarrow> hist" where
  "hist_insert k c [] = [(k, c)]"
| "hist_insert k c ((k', c') # h) =
     (if 0 \<le> k \<and> (k' < 0 \<or> k < k') then (k, c) # (k', c') # h
      else (k', c') # hist_insert k c h)"

text \<open>\<open>if (!(color in h)) h[color] = 0; h[color]++\<close>\<close>

definition hist_incr :: "int \<Rightarrow> hist \<Rightarrow> hist" where
  "hist_incr color h =
     (let h = (if color \<in> fst ` set h then h else hist_insert color 0 h)
      in map (\<lambda>(k, c). if k = color then (k, c + 1) else (k, c)) h)"

text \<open>
  \<open>if (!counts[index]) counts[index] = {}\<close> and the increment. Writing past the end of
  the array extends it; the elements in between are holes (\<open>None\<close>).
\<close>

definition count_pixel :: "nat \<Rightarrow> int \<Rightarrow> hist option list \<Rightarrow> hist option list" where
  "count_pixel index color counts =
     (let counts = counts @ replicate (index + 1 - length counts) None;
          h = (case counts ! index of None \<Rightarrow> [] | Some h \<Rightarrow> h)
      in counts[index := Some (hist_incr color h)])"

text \<open>
  The loop of \<open>_countColors\<close> from byte offset \<open>i\<close>. A pixel whose cell is not an array
  index is counted on a property that the Paint never reads; its colour is converted (and
  cached) all the same.
\<close>

function countColors_loop ::
  "converter \<Rightarrow> Frame \<Rightarrow> Dimension \<Rightarrow> jsnum \<Rightarrow> jsnum \<Rightarrow> nat \<Rightarrow>
   hist option list \<times> ansi_cache \<Rightarrow> hist option list \<times> ansi_cache" where
  "countColors_loop ansi256 this dimn blockWidth blockHeight i (counts, cache) =
     (if i < length (pixels this) then
        (let index = cell_index (dimension this) dimn blockWidth blockHeight i;
             (color, cache) = getPixelColor ansi256 (pixels this) i cache;
             counts = (case array_index index of
                         Some k \<Rightarrow> count_pixel k color counts
                       | None \<Rightarrow> counts)
         in countColors_loop ansi256 this dimn blockWidth blockHeight (i + getPixelLength)
              (counts, cache))
      else (counts, cache))"
  by pat_completeness auto
termination
  by (relation "measure (\<lambda>(a, this, d, bw, bh, i, s). length (pixels this) - i)")
     (auto simp: getPixelLength_def)

declare countColors_loop.simps [simp del]

definition countColors ::
  "converter \<Rightarrow> Frame \<Rightarrow> Dimension \<Rightarrow> ansi_cache \<Rightarrow> hist option list \<times> ansi_cache" where
  "countColors ansi256 this dimn cache =
     (let blockHeight = js_max (js_div (Fin (of_nat (height (dimension this))))
                                        (Fin (of_nat (height dimn)))) (Fin 1);
          blockWidth = js_max (js_div (Fin (of_nat (width (dimension this))))
                                       (Fin (of_nat (width dimn)))) (Fin 1)
      in countColors_loop ansi256 this dimn blockWidth blockHeight 0 ([], cache))"

subsection \<open>getPaint and the store\<close>

text \<open>
  Frames are objects that \<open>getPaint\<close> changes (their Paint cache) and that may be passed
  twice to one call (a frame as its own previous frame), so they live in a store: a
  reference is a number and \<open>frameHeap\<close> gives the object behind it. The store also holds
  the number of Paints constructed so far and the process-wide cache of \<open>Color.toAnsi\<close>.
\<close>

record Store =
  frameHeap :: "nat \<Rightarrow> Frame"
  paintCount :: nat
  ansiCache :: ansi_cache

text \<open>\<open>new Paint(this, countedColors, lastPaint)\<close> and \<open>this[_paintCache].set(cacheKey, paint)\<close>\<close>

definition newPaint ::
  "Store \<Rightarrow> nat \<Rightarrow> string \<Rightarrow> hist option list \<Rightarrow> Paint option \<Rightarrow> Paint \<times> Store" where
  "newPaint st this cacheKey countedColors lastPaint =
     (let paint = Paint_new (paintCount st) this countedColors lastPaint;
          st = st\<lparr> paintCount := paintCount st + 1 \<rparr>;
          frame = frameHeap st this;
          frame = frame\<lparr> paintCache := (paintCache frame)(cacheKey \<mapsto> paint) \<rparr>
      in (paint, st\<lparr> frameHeap := (frameHeap st)(this := frame) \<rparr>))"

text \<open>
  \<open>getPaint(dimension, previousFrame)\<close> on the frame \<open>this\<close>. The call on the previous
  frame passes no previous frame of its own, so the recursion is one level deep.
\<close>

function getPaint ::
  "converter \<Rightarrow> Store \<Rightarrow> nat \<Rightarrow> Dimension \<Rightarrow> nat option \<Rightarrow> Paint \<times> Store" where
  "getPaint ansi256 st this dimn None =
     (let cacheKey = Dimension_toString dimn
      in case paintCache (frameHeap st this) cacheKey of
           Some paint \<Rightarrow> (paint, st)
         | None \<Rightarrow>
             (let (countedColors, cache) =
                    countColors ansi256 (frameHeap st this) dimn (ansiCache st);
                  st = st\<lparr> ansiCache := cache \<rparr>
              in newPaint st this cacheKey countedColors None))"
| "getPaint ansi256 st this dimn (Some previousFrame) =
     (let cacheKey = Dimension_toString dimn
      in case paintCache (frameHeap st this) cacheKey of
           Some paint \<Rightarrow> (paint, st)
         | None \<Rightarrow>
             (let (countedColors, cache) =
                    countColors ansi256 (frameHeap st this) dimn (ansiCache st);
                  st = st\<lparr> ansiCache := cache \<rparr>;
                  (lastPaint, st) = getPaint ansi256 st previousFrame dimn None
              in newPaint st this cacheKey countedColors (Some lastPaint)))"
  by pat_completeness auto
termination
  by (relation "measure (\<lambda>(a, st, this, d, p). case p of None \<Rightarrow> 0 | Some _ \<Rightarrow> 1)") auto

declare getPaint.simps [simp del]

text \<open>A sequence of \<open>getPaint\<close> calls: the frame, the target Dimension, the previous frame.\<close>

fun getPaint_calls :: "converter \<Rightarrow> Store \<Rightarrow> (nat \<times> Dimension \<times> nat option) list \<Rightarrow> Store" where
  "getPaint_calls ansi256 st [] = st"
| "getPaint_calls ansi256 st ((f, d, p) # cs) =
     getPaint_calls ansi256 (snd (getPaint ansi256 st f d p)) cs"

section \<open>Player, Display and Controller\<close>

text \<open>
  A Controller owns one Player and one Display. The fields of the three objects that the
  playback state machine reads and writes are kept in one record, the session:
  the Player's state (src/player/Player.js); the Display's current frame, titles, loaded
  FrameSet, frozen flag and refresh timer (src/display/Display.js); whether the display
  has been rendered, which is what \<open>isRendered()\<close> of the terminal display answers
  (src/display/BlessedDisplay.js). The timers of the process are the ids handed out by
  \<open>setInterval\<close> and not cleared since. The trace records, in order, the events the
  Controller emits, the frames handed to the display's \<open>paint\<close> and the calls of
  \<open>Controller.stop\<close>. The status line and the redraw of the terminal (\<open>update()\<close>) are
  output only; they write none of these fields and are left out.
\<close>

datatype PlayerState = PAUSED | PLAYING | STOPPED

datatype failure =
    NotStopped
  | InvalidFilePath
  | FrameSetNotUnloaded
  | NoFrameSet
  | FrameSetError fs_error
  | DecoderError nat

text \<open>
  What a call gives back: it throws, or it returns a promise that is rejected or
  resolved. A promise chain is run through to its end.
\<close>

datatype 'a outcome = Thrown failure | Rejected failure | Resolved 'a

datatype 'f action = Emitted string | Painted 'f "'f option" | StopCalled

record 'f Session =
  state :: PlayerState
  currentFrame :: "'f option"
  defaultTitle :: string
  frameSet :: "'f FrameSet option"
  frozen :: bool
  refreshId :: "nat option"
  title :: string
  rendered :: bool
  intervals :: "nat list"
  timerCount :: nat
  trace :: "'f action list"

text \<open>A new Player is stopped; a new Display is frozen, with nothing loaded.\<close>

definition Session_new :: "string \<Rightarrow> 'f Session" where
  "Session_new name =
     \<lparr> state = STOPPED, currentFrame = None, defaultTitle = name, frameSet = None,
       frozen = True, refreshId = None, title = name, rendered = False, intervals = [],
       timerCount = 0, trace = [] \<rparr>"

subsection \<open>Player: the state and its accessors\<close>

definition paused :: "'f Session \<Rightarrow> bool" where
  "paused s = (state s = PAUSED)"

definition playing :: "'f Session \<Rightarrow> bool" where
  "playing s = (state s = PLAYING)"

definition stopped :: "'f Session \<Rightarrow> bool" where
  "stopped s = (state s = STOPPED)"

definition set_paused :: "bool \<Rightarrow> 'f Session \<Rightarrow> 'f Session" where
  "set_paused b s = (if b then s\<lparr> state := PAUSED \<rparr> else s)"

definition set_playing :: "bool \<Rightarrow> 'f Session \<Rightarrow> 'f Session" where
  "set_playing b s = (if b then s\<lparr> state := PLAYING \<rparr> else s)"


subsection \<open>The media decoder\<close>

text \<open>
  The MediaReader is an external collaborator. What a reader will do is given as data: the
  results of \<open>readTitle\<close> and \<open>readDimension\<close>, the events it emits during \<open>readFrames\<close>
  and whether \<open>readFrames\<close> is rejected in the end.
\<close>

datatype 'f reader_event = FrameRead 'f | Finished

record 'f MediaReader =
  readTitle :: "failure + string"
  readDimension :: "failure + Dimension"
  readFrames_emits :: "'f reader_event list"
  readFrames :: "failure option"

text \<open>
  The listeners that \<open>Player.play\<close> registers: \<open>frame\<close> is bound to \<open>add\<close> and \<open>finish\<close>
  to \<open>finalize\<close>. An \<open>add\<close> that throws leaves the FrameSet as it is; the exception goes
  to the reader that emitted the event.
\<close>

fun deliver :: "'f FrameSet \<Rightarrow> 'f reader_event list \<Rightarrow> 'f FrameSet" where
  "deliver fs [] = fs"
| "deliver fs (FrameRead f # es) = deliver (snd (add f fs)) es"
| "deliver fs (Finished # es) = deliver (finalize fs) es"

text \<open>
  \<open>Player.play\<close>. \<open>getMediaReader\<close> is abstract: its result (a reader, or the exception it
  throws) is an argument. There is no test of the state.
\<close>

definition Player_play ::
  "failure + 'f MediaReader \<Rightarrow> 'f Session \<Rightarrow> 'f FrameSet outcome \<times> 'f Session" where
  "Player_play getMediaReader s =
     (let frameSet = FrameSet_new None
      in case getMediaReader of
           Inl e \<Rightarrow> (Thrown e, s)
         | Inr mediaReader \<Rightarrow>
             (let s = s\<lparr> state := PLAYING \<rparr>
              in case readDimension mediaReader of
                   Inl e \<Rightarrow> (Rejected e, s)
                 | Inr dimn \<Rightarrow>
                     (let frameSet = deliver frameSet (readFrames_emits mediaReader)
                      in case readFrames mediaReader of
                           Some e \<Rightarrow> (Rejected e, s)
                         | None \<Rightarrow> (Resolved frameSet, s))))"

definition Player_getTitle :: "failure + 'f MediaReader \<Rightarrow> string outcome" where
  "Player_getTitle getMediaReader =
     (case getMediaReader of
        Inl e \<Rightarrow> Thrown e
      | Inr mediaReader \<Rightarrow>
          (case readTitle mediaReader of Inl e \<Rightarrow> Rejected e | Inr t \<Rightarrow> Resolved t))"

subsection \<open>Display\<close>

text \<open>
  The setter of \<open>frozen\<close>: unfreezing starts a new interval timer; freezing clears the
  timer the display remembers, if any.
\<close>

definition set_frozen :: "bool \<Rightarrow> 'f Session \<Rightarrow> 'f Session" where
  "set_frozen b s =
     (let s = s\<lparr> frozen := b \<rparr>
      in if \<not> frozen s
         then s\<lparr> refreshId := Some (timerCount s), intervals := intervals s @ [timerCount s],
                timerCount := timerCount s + 1 \<rparr>
         else (case refreshId s of
                 Some t \<Rightarrow> s\<lparr> intervals := removeAll t (intervals s), refreshId := None \<rparr>
               | None \<Rightarrow> s))"

text \<open>The setter of \<open>title\<close>: \<open>title || defaultTitle\<close>.\<close>

definition set_title :: "string option \<Rightarrow> 'f Session \<Rightarrow> 'f Session" where
  "set_title t s =
     s\<lparr> title := (case t of Some x \<Rightarrow> if x \<noteq> [] then x else defaultTitle s
                  | None \<Rightarrow> defaultTitle s) \<rparr>"

definition load :: "'f FrameSet \<Rightarrow> 'f Session \<Rightarrow> failure + 'f Session" where
  "load fs s =
     (if frameSet s \<noteq> None then Inl FrameSetNotUnloaded
      else Inr (set_frozen False (s\<lparr> frameSet := Some fs \<rparr>)))"


text \<open>
  \<open>render()\<close> of the terminal display creates the screen, the view port and the two bars;
  from then on \<open>isRendered()\<close> is true.
\<close>

definition render :: "'f Session \<Rightarrow> 'f Session" where
  "render s = s\<lparr> rendered := True \<rparr>"

definition emit :: "string \<Rightarrow> 'f Session \<Rightarrow> 'f Session" where
  "emit name s = s\<lparr> trace := trace s @ [Emitted name] \<rparr>"

subsection \<open>Controller\<close>

definition Controller_pause :: "'f Session \<Rightarrow> bool \<times> 'f Session" where
  "Controller_pause s =
     (if \<not> playing s then (False, s)
      else (True, emit ''pause'' (set_frozen True (set_paused True s))))"

definition Controller_resume :: "'f Session \<Rightarrow> bool \<times> 'f Session" where
  "Controller_resume s =
     (if \<not> paused s then (False, s)
      else (True, emit ''resume'' (set_frozen False (set_playing True s))))"


text \<open>
  What the environment answers during \<open>Controller.play\<close>: the file test and the reader
  that \<open>getMediaReader\<close> constructs for the path.
\<close>

record 'f Env =
  isFile :: "failure + bool"
  getMediaReader :: "failure + 'f MediaReader"

definition Controller_play :: "'f Env \<Rightarrow> 'f Session \<Rightarrow> 'f FrameSet outcome \<times> 'f Session" where
  "Controller_play env s =
     (if \<not> stopped s then (Rejected NotStopped, s)
      else (case isFile env of
              Inl e \<Rightarrow> (Rejected e, s)
            | Inr False \<Rightarrow> (Rejected InvalidFilePath, s)
            | Inr True \<Rightarrow>
                (case Player_getTitle (getMediaReader env) of
                   Thrown e \<Rightarrow> (Rejected e, s)
                 | Rejected e \<Rightarrow> (Rejected e, s)
                 | Resolved t \<Rightarrow>
                     (let s = set_title (Some t) s;
                          s = emit ''play'' s
                      in case Player_play (getMediaReader env) s of
                           (Thrown e, s) \<Rightarrow> (Rejected e, s)
                         | (Rejected e, s) \<Rightarrow> (Rejected e, s)
                         | (Resolved fs, s) \<Rightarrow>
                             (case load fs (render s) of
                                Inl e \<Rightarrow> (Rejected e, render s)
                              | Inr s \<Rightarrow> (Resolved fs, s))))))"

subsection \<open>The tick of the display\<close>




text \<open>A reader that reads a title and a Dimension and then emits the given events.\<close>

definition reader_emitting :: "'f reader_event list \<Rightarrow> 'f MediaReader" where
  "reader_emitting es =
     \<lparr> readTitle = Inr ''media'', readDimension = Inr (Dimension_new 1 1),
       readFrames_emits = es, readFrames = None \<rparr>"

text \<open>
  The session of a fresh process after \<open>Controller.play\<close> of a file whose decoder emits
  the given events.
\<close>

definition played :: "nat reader_event list \<Rightarrow> nat Session" where
  "played es =
     snd (Controller_play \<lparr> isFile = Inr True, getMediaReader = Inr (reader_emitting es) \<rparr>
            (Session_new ''term-player''))"

section \<open>Notions used in the statements\<close>

text \<open>
  A field value that did not come from a string, and a Color of such values: the Colors
  that \<open>getPixelColor\<close> constructs from a pixel buffer.
\<close>

definition numeric :: "jsv \<Rightarrow> bool" where
  "numeric v = (case v of JStr s \<Rightarrow> False | _ \<Rightarrow> True)"

definition numeric_color :: "Color \<Rightarrow> bool" where
  "numeric_color c =
     (numeric (red c) \<and> numeric (green c) \<and> numeric (blue c) \<and> numeric (alpha c))"

text \<open>\<open>toString()\<close> of a Color is \<open>Color.serialize(this)\<close>.\<close>

definition Color_toString :: "Color \<Rightarrow> string" where
  "Color_toString c = (case serialize (Some c) of Some s \<Rightarrow> s | None \<Rightarrow> [])"

text \<open>The Color that \<open>getPixelColor\<close> constructs for the pixel at byte offset \<open>i\<close>.\<close>

definition pixel_color :: "8 word list \<Rightarrow> nat \<Rightarrow> Color" where
  "pixel_color px i =
     Color_new (js_byte px i) (js_byte px (i + 1)) (js_byte px (i + 2)) (js_byte px (i + 3))"

text \<open>
  The code that \<open>toAnsi\<close> answers for a Color under a given cache: the cached code if there
  is one, the library's otherwise. Two caches are equivalent when they answer alike on
  every Color built from numbers.
\<close>

definition resolved :: "converter \<Rightarrow> ansi_cache \<Rightarrow> Color \<Rightarrow> int" where
  "resolved ansi256 cache c =
     (case cache (Color_toString c) of
        Some v \<Rightarrow> v
      | None \<Rightarrow> ansi256 (red c) (green c) (blue c))"

definition same_colors :: "converter \<Rightarrow> ansi_cache \<Rightarrow> ansi_cache \<Rightarrow> bool" where
  "same_colors ansi256 cache cache' =
     (\<forall>c. numeric_color c \<longrightarrow> resolved ansi256 cache c = resolved ansi256 cache' c)"



text \<open>
  What \<open>getPaint\<close> keeps of a store: the answers of the colour cache, the pixels and
  source Dimension of every frame, and every Paint already cached.
\<close>

definition store_extends :: "converter \<Rightarrow> Store \<Rightarrow> Store \<Rightarrow> bool" where
  "store_extends ansi256 st st' =
     (same_colors ansi256 (ansiCache st) (ansiCache st') \<and>
      (\<forall>g. pixels (frameHeap st' g) = pixels (frameHeap st g) \<and>
           dimension (frameHeap st' g) = dimension (frameHeap st g) \<and>
           (\<forall>k p. paintCache (frameHeap st g) k = Some p \<longrightarrow>
                  paintCache (frameHeap st' g) k = Some p)))"

text \<open>
  The store of a process that has constructed two frames, at the references 0 and 1, and
  painted nothing yet. It is used to evaluate the code on concrete frames.
\<close>

definition two_frames :: "Frame \<Rightarrow> Frame \<Rightarrow> Store" where
  "two_frames f0 f1 =
     \<lparr> frameHeap = (\<lambda>_. Frame_new 0 [] 0 0)(0 := f0, 1 := f1),
       paintCount = 0, ansiCache = Map.empty \<rparr>"



definition opaque_2x1 :: Frame where
  "opaque_2x1 = Frame_new 0 [9, 9, 9, 255, 9, 9, 9, 255] 2 1"


definition clear_2x1 :: Frame where
  "clear_2x1 = Frame_new 1 [0, 0, 0, 0, 0, 0, 0, 0] 2 1"

section \<open>Properties of the FrameSet\<close>

lemma js_slice_whole: "js_slice xs None None = xs"
  by (simp add: js_slice_def)

lemma fs_step_totalLength:
  "totalLength (fs_step s x) =
     totalLength s + (case x of Add f \<Rightarrow> (if finalized s then 0 else 1) | _ \<Rightarrow> 0)"
  by (cases x) (simp_all add: add_def finalize_def next_frame_def split: list.splits)

lemma fs_step_length_le:
  "length (frames (fs_step s x)) \<le>
     length (frames s) + (case x of Add f \<Rightarrow> (if finalized s then 0 else 1) | _ \<Rightarrow> 0)"
  by (cases x) (simp_all add: add_def finalize_def next_frame_def split: list.splits)

lemma fs_step_finalized: "finalized s \<Longrightarrow> finalized (fs_step s x)"
  by (cases x) (simp_all add: add_def finalize_def next_frame_def split: list.splits)

lemma fs_run_counts:
  "totalLength (fs_run s xs) = totalLength s + adds_ok s xs"
proof (induction xs arbitrary: s)
  case Nil
  show ?case by simp
next
  case (Cons x xs)
  show ?case
    by (cases x) (simp_all add: Cons.IH add_def finalize_def next_frame_def split: list.splits)
qed

lemma fs_run_invariant:
  "length (frames s) \<le> totalLength s \<Longrightarrow>
   length (frames (fs_run s xs)) \<le> totalLength (fs_run s xs)"
proof (induction xs arbitrary: s)
  case Nil
  then show ?case by simp
next
  case (Cons x xs)
  have "length (frames (fs_step s x)) \<le> totalLength (fs_step s x)"
    using Cons.prems fs_step_length_le [of s x] fs_step_totalLength [of s x]
    by (cases x) simp_all
  then show ?case by (simp add: Cons.IH)
qed

lemma fs_run_frozen:
  "finalized s \<Longrightarrow> totalLength (fs_run s xs) = totalLength s \<and> finalized (fs_run s xs)"
proof (induction xs arbitrary: s)
  case Nil
  then show ?case by simp
next
  case (Cons x xs)
  have "finalized (fs_step s x)" using Cons.prems by (rule fs_step_finalized)
  moreover have "totalLength (fs_step s x) = totalLength s"
    using Cons.prems fs_step_totalLength [of s x] by (cases x) simp_all
  ultimately show ?case using Cons.IH [of "fs_step s x"] by simp
qed

lemma subSet_fields:
  "frames (subSet b e s) = js_slice (frames s) b e"
  "totalLength (subSet b e s) = length (js_slice (frames s) b e)"
  "finalized (subSet b e s) = finalized s"
  by (simp_all add: subSet_def FrameSet_new_def FrameSet_length_def js_slice_whole Let_def)

text \<open>
  Claim C6. \<open>next()\<close> on a FrameSet with no buffered frame throws, whether or not the set
  is finalized, and the set after the failed call is the set before it: the same frames,
  length, totalLength and finalized flag.
\<close>

theorem next_on_empty_fails_unchanged:
  "frames s = [] \<Longrightarrow>
     fst (next_frame s) = Inl NoMoreFrames \<and> snd (next_frame s) = s \<and>
     frames (snd (next_frame s)) = frames s \<and>
     FrameSet_length (snd (next_frame s)) = FrameSet_length s \<and>
     totalLength (snd (next_frame s)) = totalLength s \<and>
     finalized (snd (next_frame s)) = finalized s"
  by (simp add: next_frame_def hasNext_def)

theorem next_on_empty_fails_unchanged_witness:
  "fst (next_frame (finalize (FrameSet_new (None :: nat list option)))) = Inl NoMoreFrames \<and>
   snd (next_frame (finalize (FrameSet_new (None :: nat list option)))) =
     finalize (FrameSet_new None) \<and>
   fst (next_frame (FrameSet_new (Some ([] :: nat list)))) = Inl NoMoreFrames \<and>
   snd (next_frame (FrameSet_new (Some ([] :: nat list)))) = FrameSet_new (Some [])"
proof -
  have e1: "frames (finalize (FrameSet_new (None :: nat list option))) = []"
    by (simp add: finalize_def FrameSet_new_def)
  have e2: "frames (FrameSet_new (Some ([] :: nat list))) = []"
    by (simp add: FrameSet_new_def js_slice_def)
  show ?thesis
    using next_on_empty_fails_unchanged [OF e1] next_on_empty_fails_unchanged [OF e2]
    by simp
qed

text \<open>
  Claim C1, as amended. For a FrameSet constructed with no initial frames (or with an empty
  array), after every sequence of operations \<open>totalLength \<ge> length\<close> and \<open>totalLength\<close>
  is the number of \<open>add\<close> calls that succeeded. For the FrameSet returned by \<open>subSet\<close> the
  counter starts at the size of the slice: after every sequence of operations on it
  \<open>totalLength \<ge> length\<close> and \<open>totalLength\<close> is the size of the slice plus the number of
  successful \<open>add\<close> calls. On every FrameSet, \<open>totalLength\<close> after \<open>finalize()\<close> stays what
  it was when \<open>finalize()\<close> was called, whatever is called afterwards.
\<close>

theorem totalLength_counts_adds:
  "(let s = fs_run (FrameSet_new None) ops
    in FrameSet_length s \<le> totalLength s \<and> totalLength s = adds_ok (FrameSet_new None) ops) \<and>
   (let s = fs_run (FrameSet_new (Some [])) ops
    in FrameSet_length s \<le> totalLength s \<and>
       totalLength s = adds_ok (FrameSet_new (Some [])) ops) \<and>
   (let s0 = subSet b e t; s = fs_run s0 ops
    in FrameSet_length s \<le> totalLength s \<and>
       totalLength s = FrameSet_length s0 + adds_ok s0 ops) \<and>
   totalLength (fs_run (finalize (fs_run u ops1)) ops2) = totalLength (fs_run u ops1)"
proof -
  have a: "FrameSet_length (fs_run s0 ops) \<le> totalLength (fs_run s0 ops) \<and>
           totalLength (fs_run s0 ops) = FrameSet_length s0 + adds_ok s0 ops"
    if "totalLength s0 = length (frames s0)" for s0 :: "'a FrameSet"
    using that fs_run_invariant [of s0 ops] fs_run_counts [of s0 ops]
    by (simp add: FrameSet_length_def)
  have n1: "totalLength (FrameSet_new None :: 'a FrameSet) = length (frames (FrameSet_new None :: 'a FrameSet))"
    by (simp add: FrameSet_new_def)
  have n2: "totalLength (FrameSet_new (Some []) :: 'a FrameSet) =
              length (frames (FrameSet_new (Some []) :: 'a FrameSet))"
    by (simp add: FrameSet_new_def js_slice_whole)
  have n3: "totalLength (subSet b e t) = length (frames (subSet b e t))"
    by (simp add: subSet_fields)
  have z1: "FrameSet_length (FrameSet_new None :: 'a FrameSet) = 0"
    by (simp add: FrameSet_new_def FrameSet_length_def)
  have z2: "FrameSet_length (FrameSet_new (Some []) :: 'a FrameSet) = 0"
    by (simp add: FrameSet_new_def FrameSet_length_def js_slice_whole)
  have fin: "finalized (finalize (fs_run u ops1))"
    by (simp add: finalize_def)
  have keep: "totalLength (finalize (fs_run u ops1)) = totalLength (fs_run u ops1)"
    by (simp add: finalize_def)
  have frozen: "totalLength (fs_run (finalize (fs_run u ops1)) ops2) = totalLength (fs_run u ops1)"
    using fs_run_frozen [OF fin, of ops2] keep by simp
  show ?thesis
    using a [OF n1] a [OF n2] a [OF n3] z1 z2 frozen by (simp add: Let_def)
qed

text \<open>
  The claim as stated fails in two places. A FrameSet constructed with one initial frame has
  length 1 and totalLength 0. The FrameSet returned by \<open>subSet\<close> on a set holding one frame has
  totalLength 1 although no \<open>add\<close> was ever called on it.
\<close>

theorem totalLength_counts_adds_counterexample:
  "\<not> (FrameSet_length (fs_run (FrameSet_new (Some [7::nat])) []) \<le>
        totalLength (fs_run (FrameSet_new (Some [7::nat])) [])) \<and>
   \<not> (totalLength (fs_run (subSet None None (fs_run (FrameSet_new None) [Add (7::nat)])) []) =
        adds_ok (subSet None None (fs_run (FrameSet_new None) [Add (7::nat)])) [])"
  by (simp add: FrameSet_new_def FrameSet_length_def js_slice_def subSet_def add_def Let_def)

section \<open>Properties of the Color\<close>

lemma digit_cases: "d < 10 \<Longrightarrow> d \<in> {0, 1, 2, 3, 4, 5, 6, 7, 8, 9 :: nat}"
  by auto

lemma digit_value_digit_char: "d < 10 \<Longrightarrow> digit_value (digit_char d) = Some d"
  by (drule digit_cases) (auto simp: digit_value_def digit_char_def upt_rec numeral_eq_Suc)

lemma digit_char_not_comma: "d < 10 \<Longrightarrow> digit_char d \<noteq> CHR '',''"
  by (drule digit_cases) (auto simp: digit_char_def)

lemma decimal_no_comma: "CHR '','' \<notin> set (decimal_of_nat n)"
proof (induction n rule: decimal_of_nat.induct)
  case (1 n)
  show ?case
  proof (cases "n < 10")
    case True
    then show ?thesis
      using digit_char_not_comma [of n] by (simp add: decimal_of_nat.simps [of n])
  next
    case False
    then show ?thesis
      using 1 digit_char_not_comma [of "n mod 10"]
      by (simp add: decimal_of_nat.simps [of n])
  qed
qed

lemma number_of_digits_snoc:
  "number_of_digits acc (s @ [c]) =
     (case number_of_digits acc s of
        None \<Rightarrow> None
      | Some v \<Rightarrow> (case digit_value c of None \<Rightarrow> None | Some d \<Rightarrow> Some (10 * v + d)))"
  by (induction s arbitrary: acc) (simp_all split: option.splits)

lemma number_of_decimal: "number_of_digits 0 (decimal_of_nat n) = Some n"
proof (induction n rule: decimal_of_nat.induct)
  case (1 n)
  show ?case
  proof (cases "n < 10")
    case True
    then show ?thesis
      by (simp add: decimal_of_nat.simps [of n] digit_value_digit_char)
  next
    case False
    then show ?thesis
      using 1 by (simp add: decimal_of_nat.simps [of n] number_of_digits_snoc
          digit_value_digit_char)
  qed
qed

lemma decimal_of_nat_inj: "decimal_of_nat m = decimal_of_nat n \<Longrightarrow> m = n"
  by (metis number_of_decimal option.inject)

lemma split_comma_nonempty: "split_comma s \<noteq> []"
  by (induction s) (simp_all split: list.splits)

lemma split_comma_plain: "CHR '','' \<notin> set s \<Longrightarrow> split_comma s = [s]"
  by (induction s) auto

lemma split_comma_append:
  "CHR '','' \<notin> set s \<Longrightarrow> split_comma (s @ CHR '','' # t) = s # split_comma t"
  by (induction s) auto

lemma split_comma_four:
  assumes "CHR '','' \<notin> set a" "CHR '','' \<notin> set b" "CHR '','' \<notin> set c" "CHR '','' \<notin> set d"
  shows "split_comma (a @ CHR '','' # b @ CHR '','' # c @ CHR '','' # d) = [a, b, c, d]"
  using assms by (simp add: split_comma_append split_comma_plain)

lemma string_of_jsv_no_comma: "numeric v \<Longrightarrow> CHR '','' \<notin> set (string_of_jsv v)"
  by (cases v) (simp_all add: numeric_def decimal_no_comma)

lemma undefined_not_decimal: "decimal_of_nat n \<noteq> ''undefined''"
proof
  assume "decimal_of_nat n = ''undefined''"
  then have "number_of_digits 0 ''undefined'' = Some n"
    using number_of_decimal [of n] by simp
  then show False by (simp add: digit_value_def upt_rec numeral_eq_Suc)
qed

lemma string_of_jsv_inj:
  "numeric v \<Longrightarrow> numeric w \<Longrightarrow> string_of_jsv v = string_of_jsv w \<Longrightarrow> v = w"
  using undefined_not_decimal
  by (cases v; cases w) (auto simp: numeric_def dest: decimal_of_nat_inj)

lemma serialize_inj:
  assumes "numeric_color c" "numeric_color c'" "serialize (Some c) = serialize (Some c')"
  shows "c = c'"
proof -
  have "split_comma (the (serialize (Some c))) = split_comma (the (serialize (Some c')))"
    using assms(3) by simp
  then have "[string_of_jsv (red c), string_of_jsv (green c), string_of_jsv (blue c),
              string_of_jsv (alpha c)] =
             [string_of_jsv (red c'), string_of_jsv (green c'), string_of_jsv (blue c'),
              string_of_jsv (alpha c')]"
    using assms(1,2)
    by (simp add: serialize_def numeric_color_def split_comma_four string_of_jsv_no_comma)
  then have "red c = red c' \<and> green c = green c' \<and> blue c = blue c' \<and> alpha c = alpha c'"
    using assms(1,2) string_of_jsv_inj by (simp add: numeric_color_def)
  then show ?thesis by (cases c; cases c') simp
qed

text \<open>
  Claim C7. The round trip through \<open>serialize\<close> and \<open>deserialize\<close> does not give back the
  Color: \<open>deserialize\<close> hands the pieces of the split string to the constructor as they are,
  so every component of the result is the decimal text of the original number and not the
  number. The texts still convert to the original numbers.
\<close>

theorem deserialize_serialize_gives_strings:
  "deserialize (serialize (Some (Color_new (JNum r) (JNum g) (JNum b) (JNum a)))) =
     Some \<lparr> red = JStr (decimal_of_nat r), green = JStr (decimal_of_nat g),
            blue = JStr (decimal_of_nat b), alpha = JStr (decimal_of_nat a) \<rparr> \<and>
   deserialize (serialize (Some (Color_new (JNum r) (JNum g) (JNum b) (JNum a)))) \<noteq>
     Some (Color_new (JNum r) (JNum g) (JNum b) (JNum a)) \<and>
   to_number (JStr (decimal_of_nat r)) = Some r \<and> to_number (JStr (decimal_of_nat a)) = Some a"
  by (simp add: deserialize_def serialize_def Color_new_def split_comma_four decimal_no_comma
      js_part_def number_of_decimal)

text \<open>
  At the Color with components 1, 2, 3 and 4: its red is the number 1, and the red of the
  Color that comes back is the string \<open>''1''\<close>.
\<close>

theorem deserialize_serialize_at_1_2_3_4:
  "deserialize (serialize (Some (Color_new (JNum 1) (JNum 2) (JNum 3) (JNum 4)))) =
     Some \<lparr> red = JStr ''1'', green = JStr ''2'', blue = JStr ''3'', alpha = JStr ''4'' \<rparr> \<and>
   red (Color_new (JNum 1) (JNum 2) (JNum 3) (JNum 4)) = JNum 1"
  by (simp add: deserialize_def serialize_def Color_new_def js_part_def decimal_of_nat.simps
      digit_char_def)

section \<open>Properties of the Paint\<close>

lemma paint_loop_colors:
  "fst (snd (paint_loop ccs prev i (asc, cols, pc))) = cols @ chosen i ccs prev"
  by (induction ccs arbitrary: i asc cols pc) (simp_all add: Let_def)

lemma paint_loop_ascii:
  "(asc \<noteq> []) = started \<Longrightarrow>
   fst (paint_loop ccs prev i (asc, cols, pc)) = asc @ runs_scan started pc (chosen i ccs prev)"
proof (induction ccs arbitrary: i asc cols pc started)
  case Nil
  show ?case by simp
next
  case (Cons cs rest)
  show ?case
    using Cons.prems by (simp add: Let_def Cons.IH [where started = True])
qed

lemma chosen_length: "length (chosen i ccs prev) = length ccs"
  by (induction ccs arbitrary: i) simp_all


lemma Paint_new_colors: "colors (Paint_new pid fr ccs lp) = chosen 0 ccs (map_option colors lp)"
  using paint_loop_colors [of ccs "map_option colors lp" 0 "[]" "[]" Null]
  by (auto simp add: Paint_new_def Let_def split: prod.splits)

lemma runs_scan_nonempty: "cs \<noteq> [] \<Longrightarrow> runs_scan st cur cs \<noteq> []"
  by (cases cs) simp_all

lemma Paint_new_ascii:
  "ascii (Paint_new pid fr ccs lp) = runs_ascii (chosen 0 ccs (map_option colors lp))"
proof -
  let ?prev = "map_option colors lp"
  obtain asc cols pc where r: "paint_loop ccs ?prev 0 ([], [], Null) = (asc, cols, pc)"
    by (cases "paint_loop ccs ?prev 0 ([], [], Null)") auto
  have a: "asc = runs_scan False Null (chosen 0 ccs ?prev)"
    using paint_loop_ascii [of "[]" False ccs ?prev 0 "[]" Null] r by simp
  have e: "(chosen 0 ccs ?prev = []) = (ccs = [])"
    using chosen_length [of 0 ccs ?prev] by (metis length_0_conv)
  show ?thesis
  proof (cases "ccs = []")
    case True
    then show ?thesis by (simp add: Paint_new_def runs_ascii_def)
  next
    case False
    then have "asc \<noteq> []" using a e runs_scan_nonempty by metis
    then show ?thesis
      using r a e False by (simp add: Paint_new_def runs_ascii_def Let_def)
  qed
qed

text \<open>
  Claim C5, as amended. The output string of a Paint is determined by its chosen colours,
  scanned in order with a running current colour that is null at first: at a cell whose
  colour differs from the current one the close escape is emitted (unless nothing has been
  emitted yet) and then the open escape of the new colour; every cell emits one filler
  glyph; and the close escape is emitted at the end when there is at least one cell. So the
  close escape appears once per change of colour after the first cell and once at the end.
\<close>

theorem Paint_ascii_runs:
  "ascii (Paint_new pid fr ccs lp) = runs_ascii (colors (Paint_new pid fr ccs lp))"
  by (simp add: Paint_new_ascii Paint_new_colors)

text \<open>
  The claim as stated fails on two cells of different colours, 1 and 2: the Paint's string
  closes the styling after the first glyph and again at the end, and the string of the
  specification, with its single close escape, is another one.
\<close>

theorem Paint_ascii_counterexample:
  "ascii (Paint_new 0 0 [Some [(1, 1)], Some [(2, 1)]] None) =
     ESC # ''[38;5;1m#'' @ ESC # ''[39m'' @ ESC # ''[38;5;2m#'' @ ESC # ''[39m'' \<and>
   colors (Paint_new 0 0 [Some [(1, 1)], Some [(2, 1)]] None) = [Code 1, Code 2] \<and>
   spec_ascii [Code 1, Code 2] = ESC # ''[38;5;1m#'' @ ESC # ''[38;5;2m#'' @ ESC # ''[39m'' \<and>
   ascii (Paint_new 0 0 [Some [(1, 1)], Some [(2, 1)]] None) \<noteq>
     spec_ascii (colors (Paint_new 0 0 [Some [(1, 1)], Some [(2, 1)]] None))"
  by (simp add: Paint_new_def Let_def getProminentColor_def weigh_def spec_ascii_def
      openAnsi_def closeAnsi_def ASCII_CHARACTER_def decimal_of_int_def decimal_of_nat.simps
      digit_char_def ESC_def)

text \<open>
  Claim C4, as amended. In a histogram of exactly two codes with the same positive count,
  one of them grayscale (\<open>\<ge> 232\<close>, or 59, or 16) and the other not, the prominent colour is
  the code that is not grayscale, in whichever order the histogram lists the two, provided
  that code is not the transparency sentinel of a cell painted over a previous Paint (the
  sentinel is then replaced by the previous Paint's colour before the counts are weighed).
\<close>

theorem grayscale_bias:
  assumes "isAnsiGrayscale (Code g)" and "\<not> isAnsiGrayscale (Code c)" and "0 < n"
    and "c \<noteq> TRANSPARENT_ANSI \<or> previousColors = None"
  shows "getProminentColor i (Some [(g, n), (c, n)]) previousColors = Code c \<and>
         getProminentColor i (Some [(c, n), (g, n)]) previousColors = Code c"
proof -
  have g: "g \<noteq> TRANSPARENT_ANSI" using assms(1) by (auto simp: TRANSPARENT_ANSI_def)
  have wg: "weigh i previousColors (g, n) = (Code g, of_nat n / 2)"
    using assms(1) g by (simp add: weigh_def split: option.splits)
  have wc: "weigh i previousColors (c, n) = (Code c, of_nat n)"
    using assms(2,4) by (auto simp: weigh_def split: option.splits)
  have lt: "(of_nat n :: rat) / 2 < of_nat n" using assms(3) by simp
  show ?thesis
    using lt by (simp add: getProminentColor_def wg wc)
qed

theorem grayscale_bias_witness:
  "isAnsiGrayscale (Code 232) \<and> \<not> isAnsiGrayscale (Code 196) \<and> (0::nat) < 3 \<and>
   getProminentColor 0 (Some [(232, 3), (196, 3)]) None = Code 196 \<and>
   getProminentColor 0 (Some [(196, 3), (232, 3)]) None = Code 196"
  using grayscale_bias [of 232 196 3 None 0] by simp

text \<open>
  The claim as stated fails when the code that is not grayscale is the sentinel and there is
  a previous Paint: with one pixel of code 16 and one transparent pixel in the cell, over a
  previous colour 232, both weighted counts are halved and the result is the grayscale
  code 16.
\<close>

theorem grayscale_bias_counterexample:
  "isAnsiGrayscale (Code 16) \<and> \<not> isAnsiGrayscale (Code TRANSPARENT_ANSI) \<and>
   getProminentColor 0 (Some [(16, 1), (TRANSPARENT_ANSI, 1)]) (Some [Code 232]) = Code 16 \<and>
   getProminentColor 0 (Some [(16, 1), (TRANSPARENT_ANSI, 1)]) (Some [Code 232])
     \<noteq> Code TRANSPARENT_ANSI"
  by (simp add: getProminentColor_def weigh_def TRANSPARENT_ANSI_def js_nth_def)

section \<open>Properties of the Frame\<close>

lemma Color_toString_eq:
  "Color_toString c = string_of_jsv (red c) @ '','' @ string_of_jsv (green c) @ '','' @
                string_of_jsv (blue c) @ '','' @ string_of_jsv (alpha c)"
  by (simp add: Color_toString_def serialize_def)

lemma Color_toString_inj:
  "numeric_color c \<Longrightarrow> numeric_color c' \<Longrightarrow> Color_toString c = Color_toString c' \<Longrightarrow> c = c'"
  by (rule serialize_inj) (simp_all add: Color_toString_def serialize_def)


lemma same_colors_refl: "same_colors a cache cache"
  by (simp add: same_colors_def)


lemma same_colors_trans: "same_colors a c1 c2 \<Longrightarrow> same_colors a c2 c3 \<Longrightarrow> same_colors a c1 c3"
  by (simp add: same_colors_def)

lemma toAnsi_same:
  assumes "numeric_color c"
  shows "same_colors a cache (snd (toAnsi a c cache))"
proof (cases "cache (Color_toString c)")
  case (Some v)
  then show ?thesis
    by (simp add: toAnsi_def Color_toString_def serialize_def same_colors_def)
next
  case None
  have upd: "snd (toAnsi a c cache) = cache(Color_toString c \<mapsto> a (red c) (green c) (blue c))"
    using None by (simp add: toAnsi_def Color_toString_def serialize_def Let_def)
  show ?thesis
    unfolding same_colors_def upd
  proof (intro allI impI)
    fix c' assume n: "numeric_color c'"
    show "resolved a cache c' =
          resolved a (cache(Color_toString c \<mapsto> a (red c) (green c) (blue c))) c'"
    proof (cases "Color_toString c' = Color_toString c")
      case True
      then have "c' = c" using Color_toString_inj n assms by blast
      then show ?thesis using None by (simp add: resolved_def)
    next
      case False
      then show ?thesis by (simp add: resolved_def)
    qed
  qed
qed

lemma numeric_js_byte: "numeric (js_byte px i)"
  by (simp add: js_byte_def numeric_def)

lemma numeric_pixel_color: "numeric_color (pixel_color px i)"
  by (simp add: pixel_color_def Color_new_def numeric_color_def numeric_js_byte)
     (simp add: numeric_def)


lemma getPixelColor_same: "same_colors a cache (snd (getPixelColor a px i cache))"
  using toAnsi_same [OF numeric_pixel_color, of a cache px i]
  by (simp add: getPixelColor_def pixel_color_def Let_def same_colors_refl)


lemma countColors_loop_same:
  "same_colors a cache (snd (countColors_loop a f d bw bh i (counts, cache)))"
proof (induction a f d bw bh i "(counts, cache)" arbitrary: counts cache
    rule: countColors_loop.induct)
  case (1 a f d bw bh i counts cache)
  show ?case
  proof (cases "i < length (pixels f)")
    case False
    then show ?thesis by (simp add: countColors_loop.simps [of a f d bw bh i] same_colors_refl)
  next
    case True
    obtain color cache' where g: "getPixelColor a (pixels f) i cache = (color, cache')"
      by (cases "getPixelColor a (pixels f) i cache") auto
    have s1: "same_colors a cache cache'"
      using getPixelColor_same [of a cache "pixels f" i] g by simp
    let ?counts = "case array_index (cell_index (dimension f) d bw bh i) of
                     Some k \<Rightarrow> count_pixel k color counts | None \<Rightarrow> counts"
    have s2: "same_colors a cache'
                (snd (countColors_loop a f d bw bh (i + getPixelLength) (?counts, cache')))"
      using 1 [OF True refl g [symmetric] refl refl] .
    show ?thesis
      using True g same_colors_trans [OF s1 s2]
      by (simp add: countColors_loop.simps [of a f d bw bh i] Let_def)
  qed
qed


lemma countColors_same: "same_colors a cache (snd (countColors a f d cache))"
  by (simp add: countColors_def Let_def countColors_loop_same)



lemma store_extends_refl: "store_extends a st st"
  by (simp add: store_extends_def same_colors_refl)

lemma store_extends_trans:
  "store_extends a st1 st2 \<Longrightarrow> store_extends a st2 st3 \<Longrightarrow> store_extends a st1 st3"
  unfolding store_extends_def using same_colors_trans by (metis (no_types, lifting))

lemma newPaint_fst: "fst (newPaint st f key cc lp) = Paint_new (paintCount st) f cc lp"
  by (simp add: newPaint_def Let_def)

lemma newPaint_frameHeap:
  "frameHeap (snd (newPaint st f key cc lp)) =
     (frameHeap st)(f := (frameHeap st f)
        \<lparr> paintCache := (paintCache (frameHeap st f))(key \<mapsto> Paint_new (paintCount st) f cc lp) \<rparr>)"
  by (simp add: newPaint_def Let_def)

lemma newPaint_ansiCache: "ansiCache (snd (newPaint st f key cc lp)) = ansiCache st"
  by (simp add: newPaint_def Let_def)

lemma newPaint_extends:
  "paintCache (frameHeap st f) key = None \<Longrightarrow> store_extends a st (snd (newPaint st f key cc lp))"
  by (auto simp add: store_extends_def newPaint_frameHeap newPaint_ansiCache same_colors_refl)

lemma getPaint_hit:
  "paintCache (frameHeap st f) (Dimension_toString d) = Some p \<Longrightarrow> getPaint a st f d q = (p, st)"
  by (cases q) (simp_all add: getPaint.simps Let_def)

lemma getPaint_miss_None:
  assumes "paintCache (frameHeap st f) (Dimension_toString d) = None"
  shows "getPaint a st f d None =
           newPaint (st\<lparr> ansiCache := snd (countColors a (frameHeap st f) d (ansiCache st)) \<rparr>)
             f (Dimension_toString d) (fst (countColors a (frameHeap st f) d (ansiCache st))) None"
  using assms by (simp add: getPaint.simps(1) Let_def case_prod_beta)

lemma getPaint_miss_Some:
  assumes "paintCache (frameHeap st f) (Dimension_toString d) = None"
  shows "getPaint a st f d (Some g) =
           (let cc = countColors a (frameHeap st f) d (ansiCache st);
                r = getPaint a (st\<lparr> ansiCache := snd cc \<rparr>) g d None
            in newPaint (snd r) f (Dimension_toString d) (fst cc) (Some (fst r)))"
  using assms by (simp add: getPaint.simps(2) Let_def case_prod_beta)

lemma set_ansiCache_extends:
  "same_colors a (ansiCache st) c \<Longrightarrow> store_extends a st (st\<lparr> ansiCache := c \<rparr>)"
  by (simp add: store_extends_def)

lemma getPaint_None_extends: "store_extends a st (snd (getPaint a st f d None))"
proof (cases "paintCache (frameHeap st f) (Dimension_toString d)")
  case (Some p)
  then show ?thesis by (simp add: getPaint_hit store_extends_refl)
next
  case None
  let ?cc = "countColors a (frameHeap st f) d (ansiCache st)"
  let ?st1 = "st\<lparr> ansiCache := snd ?cc \<rparr>"
  have e1: "store_extends a st ?st1"
    by (rule set_ansiCache_extends) (rule countColors_same)
  have n1: "paintCache (frameHeap ?st1 f) (Dimension_toString d) = None"
    using None by simp
  show ?thesis
    unfolding getPaint_miss_None [OF None]
    using store_extends_trans [OF e1 newPaint_extends [OF n1]] .
qed

lemma getPaint_None_cached:
  "paintCache (frameHeap (snd (getPaint a st f d None)) f) (Dimension_toString d) =
     Some (fst (getPaint a st f d None))"
proof (cases "paintCache (frameHeap st f) (Dimension_toString d)")
  case (Some p)
  then show ?thesis by (simp add: getPaint_hit)
next
  case None
  show ?thesis
    unfolding getPaint_miss_None [OF None]
    by (simp add: newPaint_frameHeap newPaint_fst)
qed

lemma getPaint_extends: "store_extends a st (snd (getPaint a st f d q))"
proof (cases q)
  case None
  then show ?thesis by (simp add: getPaint_None_extends)
next
  case (Some g)
  show ?thesis
  proof (cases "paintCache (frameHeap st f) (Dimension_toString d)")
    case (Some p)
    then show ?thesis by (simp add: getPaint_hit store_extends_refl)
  next
    case None
    let ?cc = "countColors a (frameHeap st f) d (ansiCache st)"
    let ?st1 = "st\<lparr> ansiCache := snd ?cc \<rparr>"
    let ?r = "getPaint a ?st1 g d None"
    have e1: "store_extends a st ?st1"
      by (rule set_ansiCache_extends) (rule countColors_same)
    have e2: "store_extends a ?st1 (snd ?r)"
      by (rule getPaint_None_extends)
    have e12: "store_extends a st (snd ?r)"
      using store_extends_trans [OF e1 e2] .
    let ?new = "newPaint (snd ?r) f (Dimension_toString d) (fst ?cc) (Some (fst ?r))"
    have heap: "frameHeap (snd ?new) =
        (frameHeap (snd ?r))(f := (frameHeap (snd ?r) f)
          \<lparr> paintCache := (paintCache (frameHeap (snd ?r) f))
               (Dimension_toString d \<mapsto> fst ?new) \<rparr>)"
      by (simp add: newPaint_frameHeap newPaint_fst)
    have "store_extends a st (snd ?new)"
      unfolding store_extends_def
    proof (intro conjI allI impI)
      show "same_colors a (ansiCache st) (ansiCache (snd ?new))"
        using e12 by (simp add: newPaint_ansiCache store_extends_def)
    next
      fix h
      show "pixels (frameHeap (snd ?new) h) = pixels (frameHeap st h)"
        using e12 by (simp add: heap store_extends_def)
      show "dimension (frameHeap (snd ?new) h) = dimension (frameHeap st h)"
        using e12 by (simp add: heap store_extends_def)
    next
      fix h k p
      assume c: "paintCache (frameHeap st h) k = Some p"
      have "paintCache (frameHeap (snd ?r) h) k = Some p"
        using e12 c by (simp add: store_extends_def)
      moreover have "\<not> (h = f \<and> k = Dimension_toString d)"
        using c None by auto
      ultimately show "paintCache (frameHeap (snd ?new) h) k = Some p"
        by (auto simp add: heap)
    qed
    then show ?thesis
      using \<open>q = Some g\<close> by (simp add: getPaint_miss_Some [OF None] Let_def)
  qed
qed

lemma getPaint_cached:
  "paintCache (frameHeap (snd (getPaint a st f d q)) f) (Dimension_toString d) =
     Some (fst (getPaint a st f d q))"
proof (cases q)
  case None
  then show ?thesis by (simp add: getPaint_None_cached)
next
  case (Some g)
  show ?thesis
  proof (cases "paintCache (frameHeap st f) (Dimension_toString d)")
    case (Some p)
    then show ?thesis by (simp add: getPaint_hit)
  next
    case None
    show ?thesis
      using \<open>q = Some g\<close>
      by (simp add: getPaint_miss_Some [OF None] Let_def newPaint_frameHeap newPaint_fst)
  qed
qed

lemma getPaint_calls_extends: "store_extends a st (getPaint_calls a st cs)"
proof (induction cs arbitrary: st)
  case Nil
  show ?case by (simp add: store_extends_refl)
next
  case (Cons c cs)
  obtain f d p where c: "c = (f, d, p)" by (cases c) auto
  show ?case
    using store_extends_trans [OF getPaint_extends [of a st f d p] Cons.IH] by (simp add: c)
qed








text \<open>
  Claim C10. Once \<open>getPaint(d, p)\<close> has been called on a frame, with whatever previous frame
  \<open>p\<close>, every later \<open>getPaint(d, q)\<close> on that frame returns the very Paint of the first call
  (the same instance and contents) and leaves the store as it is, for every previous frame
  \<open>q\<close>, absent or not, and whatever has been painted in between.
\<close>

theorem getPaint_cache_ignores_previousFrame:
  "getPaint a (getPaint_calls a (snd (getPaint a st f d p)) calls) f d q =
     (fst (getPaint a st f d p), getPaint_calls a (snd (getPaint a st f d p)) calls)"
proof -
  let ?st1 = "snd (getPaint a st f d p)"
  have "paintCache (frameHeap ?st1 f) (Dimension_toString d) = Some (fst (getPaint a st f d p))"
    by (rule getPaint_cached)
  then have "paintCache (frameHeap (getPaint_calls a ?st1 calls) f) (Dimension_toString d) =
               Some (fst (getPaint a st f d p))"
    using getPaint_calls_extends [of a ?st1 calls] by (simp add: store_extends_def)
  then show ?thesis by (rule getPaint_hit)
qed

text \<open>
  On concrete frames: a transparent frame painted first after an opaque frame takes that
  frame's colours, and painted again with no previous frame it still has them.
\<close>

lemma getPaint_keeps_first_fallback:
  "colors (fst (getPaint (\<lambda>r g b. 196) (two_frames opaque_2x1 clear_2x1) 1 (Dimension_new 2 1)
                  (Some 0))) = [Code 196, Code 196] \<and>
   colors (fst (getPaint (\<lambda>r g b. 196)
                  (snd (getPaint (\<lambda>r g b. 196) (two_frames opaque_2x1 clear_2x1) 1
                          (Dimension_new 2 1) (Some 0)))
                  1 (Dimension_new 2 1) None)) = [Code 196, Code 196] \<and>
   colors (fst (getPaint (\<lambda>r g b. 196) (two_frames opaque_2x1 clear_2x1) 1 (Dimension_new 2 1)
                  None)) = [Code (- 1), Code (- 1)]"
  by code_simp






section \<open>Properties of the playback state machine\<close>

text \<open>
  Claim C2, as amended. \<open>Controller.play\<close> while the player is not stopped returns a rejected
  promise and leaves the session as it is: the state of the player, the FrameSet loaded in
  the display and every other field are unchanged, and nothing is emitted. (The decoder of
  the playback in progress is held by no field; \<open>Player.play\<close> itself makes no test.)
\<close>

theorem Controller_play_rejects_unless_stopped:
  "state s \<noteq> STOPPED \<Longrightarrow>
     Controller_play env s = (Rejected NotStopped, s) \<and>
     state (snd (Controller_play env s)) = state s \<and>
     frameSet (snd (Controller_play env s)) = frameSet s"
  by (simp add: Controller_play_def stopped_def)

theorem Controller_play_rejects_unless_stopped_witness:
  "state (played [FrameRead 1, FrameRead 2, Finished]) = PLAYING \<and>
   Controller_play \<lparr> isFile = Inr True,
                     getMediaReader = Inr (reader_emitting [FrameRead 3, Finished]) \<rparr>
     (played [FrameRead 1, FrameRead 2, Finished]) =
     (Rejected NotStopped, played [FrameRead 1, FrameRead 2, Finished]) \<and>
   frameSet (played [FrameRead 1, FrameRead 2, Finished]) =
     Some \<lparr> finalized = True, frames = [1, 2], totalLength = 2 \<rparr>"
proof -
  have p: "state (played [FrameRead 1, FrameRead 2, Finished]) = PLAYING"
    by code_simp
  then have h: "state (played [FrameRead 1, FrameRead 2, Finished]) \<noteq> STOPPED"
    by simp
  have f: "frameSet (played [FrameRead 1, FrameRead 2, Finished]) =
             Some \<lparr> finalized = True, frames = [1, 2], totalLength = 2 \<rparr>"
    by code_simp
  show ?thesis
    using Controller_play_rejects_unless_stopped [OF h] p f by simp
qed

text \<open>
  The claim as stated, of \<open>play\<close> on the player itself, fails: \<open>Player.play\<close> while the
  state is PLAYING does not fail, it resolves with a new FrameSet; and called while the
  state is PAUSED it sets the state to PLAYING.
\<close>

theorem Player_play_counterexample:
  "state (played [FrameRead 1, FrameRead 2, Finished]) = PLAYING \<and>
   fst (Player_play (Inr (reader_emitting [FrameRead 3, Finished]))
          (played [FrameRead 1, FrameRead 2, Finished])) =
     Resolved \<lparr> finalized = True, frames = [3], totalLength = 1 \<rparr> \<and>
   state (snd (Controller_pause (played [FrameRead 1, FrameRead 2, Finished]))) = PAUSED \<and>
   fst (Player_play (Inr (reader_emitting [FrameRead 3, Finished]))
          (snd (Controller_pause (played [FrameRead 1, FrameRead 2, Finished])))) =
     Resolved \<lparr> finalized = True, frames = [3], totalLength = 1 \<rparr> \<and>
   state (snd (Player_play (Inr (reader_emitting [FrameRead 3, Finished]))
                 (snd (Controller_pause (played [FrameRead 1, FrameRead 2, Finished]))))) =
     PLAYING"
  by code_simp





end
